theory Spec2Isabelle
  imports Complex_Main
begin

section \<open>Loss graphs of tensorrec (\<^verbatim>\<open>src/tensorrec/loss_graphs.py\<close>)\<close>

text \<open>
  The loss functions are pure functions of tensors. Tensor entries are modelled as
  real numbers with exact arithmetic: rounding, overflow and non-finite inputs of
  \<^verbatim>\<open>float32\<close> are outside the model. What exact arithmetic leaves undefined and the
  library answers with NaN (the mean of an empty tensor, \<open>0 / 0\<close>) is the scalar
  \<open>None\<close>; what the library refuses with an exception (shapes that do not broadcast,
  an index outside a tensor) is the error \<open>Inl InvalidArgument\<close>.
\<close>

subsection \<open>Tensors\<close>

datatype tf_error = InvalidArgument

text \<open>A scalar of the graph: \<open>Some x\<close> is the number \<open>x\<close>, \<open>None\<close> is NaN.\<close>

type_synonym scalar = "real option"

text \<open>
  A dense matrix of shape \<open>[length rows, n_cols]\<close>, stored by rows. The number of
  columns is a field of its own: a matrix without rows still has a shape.
\<close>

record dense =
  n_cols :: nat
  rows :: "real list list"

definition n_rows :: "dense \<Rightarrow> nat" where
  "n_rows d = length (rows d)"

definition wf_dense :: "dense \<Rightarrow> bool" where
  "wf_dense d = list_all (\<lambda>r. length r = n_cols d) (rows d)"

text \<open>
  \<^verbatim>\<open>tf.SparseTensor\<close> of rank 2: \<^verbatim>\<open>indices\<close> is an \<^verbatim>\<open>int64\<close> matrix of shape
  \<open>[N, 2]\<close>, \<^verbatim>\<open>values\<close> a vector of shape \<open>[N]\<close>, \<^verbatim>\<open>dense_shape\<close> the
  shape of the matrix it stands for.
\<close>

record sparse_tensor =
  sp_indices :: "(int \<times> int) list"
  sp_values :: "real list"
  sp_dense_shape :: "nat \<times> nat"

subsection \<open>The operations of the library that the losses call\<close>

text \<open>
  Elementwise binary operations on vectors broadcast: equal lengths combine entry by
  entry, a vector of length one combines with every entry of the other, any other
  pair of lengths is refused.
\<close>

definition tf_broadcast :: "(real \<Rightarrow> real \<Rightarrow> real) \<Rightarrow> real list \<Rightarrow> real list \<Rightarrow> tf_error + real list" where
  "tf_broadcast f xs ys =
     (if length xs = length ys then Inr (map2 f xs ys)
      else if length xs = 1 then Inr (map (\<lambda>y. f (hd xs) y) ys)
      else if length ys = 1 then Inr (map (\<lambda>x. f x (hd ys)) xs)
      else Inl InvalidArgument)"

definition tf_subtract :: "real list \<Rightarrow> real list \<Rightarrow> tf_error + real list" where
  "tf_subtract = tf_broadcast (\<lambda>x y. x - y)"

definition tf_add :: "real list \<Rightarrow> real list \<Rightarrow> tf_error + real list" where
  "tf_add = tf_broadcast (\<lambda>x y. x + y)"

definition tf_square :: "real list \<Rightarrow> real list" where
  "tf_square xs = map (\<lambda>x. x * x) xs"

text \<open>\<^verbatim>\<open>tf.reduce_mean\<close> over all entries: the sum divided by the count, NaN for no entries.\<close>

definition tf_reduce_mean :: "real list \<Rightarrow> scalar" where
  "tf_reduce_mean xs = (if xs = [] then None else Some (sum_list xs / real (length xs)))"

text \<open>\<^verbatim>\<open>tf.sqrt\<close> of a scalar: NaN below zero and at NaN.\<close>

definition tf_sqrt :: "scalar \<Rightarrow> scalar" where
  "tf_sqrt s = (case s of None \<Rightarrow> None | Some x \<Rightarrow> if x < 0 then None else Some (sqrt x))"

subsection \<open>RMSELossGraph\<close>

text \<open>
  \<^verbatim>\<open>def loss_graph(self, tf_prediction_serial, tf_interactions_serial, **kwargs):
    return tf.sqrt(tf.reduce_mean(tf.square(tf_interactions_serial - tf_prediction_serial)))\<close>
\<close>

definition RMSE_loss_graph :: "real list \<Rightarrow> real list \<Rightarrow> tf_error + scalar" where
  "RMSE_loss_graph tf_prediction_serial tf_interactions_serial =
     (case tf_subtract tf_interactions_serial tf_prediction_serial of
        Inl e \<Rightarrow> Inl e
      | Inr diff \<Rightarrow> Inr (tf_sqrt (tf_reduce_mean (tf_square diff))))"

subsection \<open>RMSEDenseLossGraph\<close>

text \<open>A scalar times a dense matrix.\<close>

definition tf_scalar_mul :: "real \<Rightarrow> dense \<Rightarrow> dense" where
  "tf_scalar_mul a d = d\<lparr>rows := map (map (\<lambda>x. a * x)) (rows d)\<rparr>"

definition in_range :: "nat \<Rightarrow> nat \<Rightarrow> int \<times> int \<Rightarrow> bool" where
  "in_range nr nc idx = (0 \<le> fst idx \<and> fst idx < int nr \<and> 0 \<le> snd idx \<and> snd idx < int nc)"

text \<open>The value a sparse tensor holds at a cell: the sum of the values stored for it.\<close>

definition sparse_cell :: "sparse_tensor \<Rightarrow> nat \<Rightarrow> nat \<Rightarrow> real" where
  "sparse_cell sp r c =
     sum_list (map snd (filter (\<lambda>e. fst e = (int r, int c)) (zip (sp_indices sp) (sp_values sp))))"

text \<open>
  \<^verbatim>\<open>tf.sparse_add\<close> of a sparse and a dense tensor: a dense tensor, each stored value
  added to the cell its index names. The shapes must be equal (no broadcasting) and
  every index inside the shape.
\<close>

definition tf_sparse_add :: "sparse_tensor \<Rightarrow> dense \<Rightarrow> tf_error + dense" where
  "tf_sparse_add sp d =
     (if sp_dense_shape sp \<noteq> (n_rows d, n_cols d) \<or> length (sp_indices sp) \<noteq> length (sp_values sp)
      then Inl InvalidArgument
      else if \<not> list_all (in_range (n_rows d) (n_cols d)) (sp_indices sp) then Inl InvalidArgument
      else Inr (d\<lparr>rows := map (\<lambda>r. map (\<lambda>c. sparse_cell sp r c + rows d ! r ! c) [0..<n_cols d])
                             [0..<n_rows d]\<rparr>))"

text \<open>All entries of a dense matrix, row by row.\<close>

definition entries :: "dense \<Rightarrow> real list" where
  "entries d = concat (rows d)"

text \<open>
  \<^verbatim>\<open>def loss_graph(self, tf_interactions, tf_prediction, **kwargs):
    error = tf.sparse_add(tf_interactions, -1.0 * tf_prediction)
    return tf.sqrt(tf.reduce_mean(tf.square(error)))\<close>
\<close>

definition RMSEDense_loss_graph :: "sparse_tensor \<Rightarrow> dense \<Rightarrow> tf_error + scalar" where
  "RMSEDense_loss_graph tf_interactions tf_prediction =
     (case tf_sparse_add tf_interactions (tf_scalar_mul (- 1) tf_prediction) of
        Inl e \<Rightarrow> Inl e
      | Inr error \<Rightarrow> Inr (tf_sqrt (tf_reduce_mean (tf_square (entries error)))))"

subsection \<open>SeparationLossGraph\<close>

definition tf_greater :: "real list \<Rightarrow> real \<Rightarrow> bool list" where
  "tf_greater xs y = map (\<lambda>x. y < x) xs"

definition tf_less_equal :: "real list \<Rightarrow> real \<Rightarrow> bool list" where
  "tf_less_equal xs y = map (\<lambda>x. x \<le> y) xs"

text \<open>
  \<^verbatim>\<open>tf.boolean_mask\<close>: the entries whose mask is true, in order. The mask must have
  the shape of the tensor.
\<close>

definition tf_boolean_mask :: "'a list \<Rightarrow> bool list \<Rightarrow> tf_error + 'a list" where
  "tf_boolean_mask xs msk =
     (if length xs \<noteq> length msk then Inl InvalidArgument
      else Inr (map fst (filter snd (zip xs msk))))"

text \<open>
  \<^verbatim>\<open>tf.nn.moments\<close> along the only axis: the mean, and the mean of the squared
  differences from it (the divisor is the number of entries). Both are NaN for no
  entries.
\<close>

definition tf_nn_moments :: "real list \<Rightarrow> scalar \<times> scalar" where
  "tf_nn_moments xs =
     (case tf_reduce_mean xs of
        None \<Rightarrow> (None, None)
      | Some m \<Rightarrow> (Some m, tf_reduce_mean (map (\<lambda>x. (x - m) * (x - m)) xs)))"

definition scalar_op :: "(real \<Rightarrow> real \<Rightarrow> real) \<Rightarrow> scalar \<Rightarrow> scalar \<Rightarrow> scalar" where
  "scalar_op f a b = (case a of None \<Rightarrow> None | Some x \<Rightarrow> (case b of None \<Rightarrow> None | Some y \<Rightarrow> Some (f x y)))"

text \<open>The error function by its power series, and the standard normal distribution function.\<close>

definition erf :: "real \<Rightarrow> real" where
  "erf x = 2 / sqrt pi * (\<Sum>n. (- 1) ^ n * x ^ (2 * n + 1) / (fact n * real (2 * n + 1)))"

definition ndtr :: "real \<Rightarrow> real" where
  "ndtr z = (1 + erf (z / sqrt 2)) / 2"

text \<open>
  \<^verbatim>\<open>Normal(loc, scale).cdf(x)\<close> is \<^verbatim>\<open>ndtr((x - loc) / scale)\<close>. The arguments are not
  validated, so a scale of zero divides by zero: the quotient is NaN for \<open>0 / 0\<close> and
  an infinity of the sign of \<open>x - loc\<close> otherwise, where \<^verbatim>\<open>ndtr\<close> is 1 or 0.
\<close>

definition Normal_cdf :: "real \<Rightarrow> real \<Rightarrow> real \<Rightarrow> scalar" where
  "Normal_cdf loc scale x =
     (if scale = 0
      then (if x - loc = 0 then None else if 0 < x - loc then Some 1 else Some 0)
      else Some (ndtr ((x - loc) / scale)))"

definition tf_Normal_cdf :: "scalar \<Rightarrow> scalar \<Rightarrow> real \<Rightarrow> scalar" where
  "tf_Normal_cdf loc scale x =
     (case loc of None \<Rightarrow> None | Some l \<Rightarrow> (case scale of None \<Rightarrow> None | Some s \<Rightarrow> Normal_cdf l s x))"

text \<open>
  \<^verbatim>\<open>def loss_graph(self, tf_prediction_serial, tf_interactions_serial, **kwargs):
    tf_positive_mask = tf.greater(tf_interactions_serial, 0.0)
    tf_negative_mask = tf.less_equal(tf_interactions_serial, 0.0)
    tf_positive_predictions = tf.boolean_mask(tf_prediction_serial, tf_positive_mask)
    tf_negative_predictions = tf.boolean_mask(tf_prediction_serial, tf_negative_mask)
    tf_pos_mean, tf_pos_var = tf.nn.moments(tf_positive_predictions, axes=[0])
    tf_neg_mean, tf_neg_var = tf.nn.moments(tf_negative_predictions, axes=[0])
    tf_overlap_distribution = tf.contrib.distributions.Normal(loc=(tf_neg_mean - tf_pos_mean),
                                                              scale=tf.sqrt(tf_neg_var + tf_pos_var))
    loss = 1.0 - tf_overlap_distribution.cdf(0.0)
    return loss\<close>
\<close>

definition Separation_loss_graph :: "real list \<Rightarrow> real list \<Rightarrow> tf_error + scalar" where
  "Separation_loss_graph tf_prediction_serial tf_interactions_serial =
     (let tf_positive_mask = tf_greater tf_interactions_serial 0;
          tf_negative_mask = tf_less_equal tf_interactions_serial 0
      in case tf_boolean_mask tf_prediction_serial tf_positive_mask of
           Inl e \<Rightarrow> Inl e
         | Inr tf_positive_predictions \<Rightarrow>
        (case tf_boolean_mask tf_prediction_serial tf_negative_mask of
           Inl e \<Rightarrow> Inl e
         | Inr tf_negative_predictions \<Rightarrow>
        (let (tf_pos_mean, tf_pos_var) = tf_nn_moments tf_positive_predictions;
             (tf_neg_mean, tf_neg_var) = tf_nn_moments tf_negative_predictions;
             loc = scalar_op (\<lambda>x y. x - y) tf_neg_mean tf_pos_mean;
             scale = tf_sqrt (scalar_op (\<lambda>x y. x + y) tf_neg_var tf_pos_var);
             loss = scalar_op (\<lambda>x y. x - y) (Some 1) (tf_Normal_cdf loc scale 0)
         in Inr loss)))"

subsection \<open>WMRBLossGraph and WMRBAlignmentLossGraph\<close>

text \<open>
  \<^verbatim>\<open>tf.gather_nd\<close> on a matrix with full indices: the entry at each index pair; an
  index outside the matrix is refused.
\<close>

definition tf_gather_nd :: "dense \<Rightarrow> (int \<times> int) list \<Rightarrow> tf_error + real list" where
  "tf_gather_nd params idxs =
     (if list_all (in_range (n_rows params) (n_cols params)) idxs
      then Inr (map (\<lambda>idx. rows params ! nat (fst idx) ! nat (snd idx)) idxs)
      else Inl InvalidArgument)"

text \<open>\<^verbatim>\<open>tf.gather\<close> on a vector: the entry at each index; an index outside the vector is refused.\<close>

definition tf_gather :: "real list \<Rightarrow> int list \<Rightarrow> tf_error + real list" where
  "tf_gather params idxs =
     (if list_all (\<lambda>i. 0 \<le> i \<and> i < int (length params)) idxs
      then Inr (map (\<lambda>i. params ! nat i) idxs)
      else Inl InvalidArgument)"

text \<open>\<^verbatim>\<open>tf.reduce_sum(_, axis=1)\<close>: the sum of each row.\<close>

definition tf_reduce_sum_axis1 :: "dense \<Rightarrow> real list" where
  "tf_reduce_sum_axis1 d = map sum_list (rows d)"

text \<open>
  \<^verbatim>\<open>def loss_graph(self, tf_prediction, tf_interactions, tf_sample_predictions, **kwargs):
    positive_interaction_mask = tf.greater(tf_interactions.values, 0.0)
    positive_interaction_indices = tf.boolean_mask(tf_interactions.indices,
                                                   positive_interaction_mask)
    positive_predictions = tf.gather_nd(tf_prediction, indices=positive_interaction_indices)
    n_sampled_items = tf.cast(tf.shape(tf_sample_predictions)[1], dtype=tf.float32)
    predictions_sum_per_user = tf.reduce_sum(tf_sample_predictions, axis=1)
    mapped_predictions_sum_per_user = tf.gather(params=predictions_sum_per_user,
                                                indices=tf.transpose(positive_interaction_indices)[0])
    irrelevant_item_indicator = n_sampled_items
    sampled_margin_rank = (n_sampled_items - (n_sampled_items * positive_predictions)
                           + mapped_predictions_sum_per_user + irrelevant_item_indicator)
    return sampled_margin_rank\<close>

  The first column of the index matrix (row 0 of its transpose) is the user of each
  interaction.
\<close>

definition WMRB_loss_graph :: "dense \<Rightarrow> sparse_tensor \<Rightarrow> dense \<Rightarrow> tf_error + real list" where
  "WMRB_loss_graph tf_prediction tf_interactions tf_sample_predictions =
     (let positive_interaction_mask = tf_greater (sp_values tf_interactions) 0
      in case tf_boolean_mask (sp_indices tf_interactions) positive_interaction_mask of
           Inl e \<Rightarrow> Inl e
         | Inr positive_interaction_indices \<Rightarrow>
        (case tf_gather_nd tf_prediction positive_interaction_indices of
           Inl e \<Rightarrow> Inl e
         | Inr positive_predictions \<Rightarrow>
        (let n_sampled_items = real (n_cols tf_sample_predictions);
             predictions_sum_per_user = tf_reduce_sum_axis1 tf_sample_predictions
         in case tf_gather predictions_sum_per_user (map fst positive_interaction_indices) of
              Inl e \<Rightarrow> Inl e
            | Inr mapped_predictions_sum_per_user \<Rightarrow>
           (let irrelevant_item_indicator = n_sampled_items
            in case tf_add (map (\<lambda>x. n_sampled_items - x)
                              (map (\<lambda>p. n_sampled_items * p) positive_predictions))
                           mapped_predictions_sum_per_user of
                 Inl e \<Rightarrow> Inl e
               | Inr partial_margin \<Rightarrow>
                   Inr (map (\<lambda>x. x + irrelevant_item_indicator) partial_margin)))))"

text \<open>
  \<^verbatim>\<open>def loss_graph(self, tf_alignment, tf_interactions, tf_sample_alignments, **kwargs):
    return super(WMRBAlignmentLossGraph, self).loss_graph(tf_prediction=tf_alignment,
                                                          tf_interactions=tf_interactions,
                                                          tf_sample_predictions=tf_sample_alignments)\<close>
\<close>

definition WMRBAlignment_loss_graph :: "dense \<Rightarrow> sparse_tensor \<Rightarrow> dense \<Rightarrow> tf_error + real list" where
  "WMRBAlignment_loss_graph tf_alignment tf_interactions tf_sample_alignments =
     WMRB_loss_graph tf_alignment tf_interactions tf_sample_alignments"

subsection \<open>The interface: one call with every tensor, by keyword\<close>

text \<open>
  The abstract method names eight tensors. A caller passes them by keyword; each
  class binds the ones its signature names and the rest fall into \<^verbatim>\<open>**kwargs\<close>,
  which no body reads.
\<close>

record loss_inputs =
  tf_prediction_serial :: "real list"
  tf_interactions_serial :: "real list"
  tf_prediction :: dense
  tf_interactions :: sparse_tensor
  tf_rankings :: dense
  tf_alignment :: dense
  tf_sample_predictions :: dense
  tf_sample_alignments :: dense

datatype loss_class =
  RMSELossGraph | RMSEDenseLossGraph | SeparationLossGraph | WMRBLossGraph | WMRBAlignmentLossGraph

fun is_dense :: "loss_class \<Rightarrow> bool" where
  "is_dense RMSELossGraph = False"
| "is_dense RMSEDenseLossGraph = True"
| "is_dense SeparationLossGraph = False"
| "is_dense WMRBLossGraph = True"
| "is_dense WMRBAlignmentLossGraph = True"

fun is_sample_based :: "loss_class \<Rightarrow> bool" where
  "is_sample_based RMSELossGraph = False"
| "is_sample_based RMSEDenseLossGraph = False"
| "is_sample_based SeparationLossGraph = False"
| "is_sample_based WMRBLossGraph = True"
| "is_sample_based WMRBAlignmentLossGraph = True"

text \<open>The loss is one scalar, or for the WMRB classes a vector.\<close>

datatype loss_value = Scalar scalar | PerSample "real list"

definition as_scalar :: "tf_error + scalar \<Rightarrow> tf_error + loss_value" where
  "as_scalar r = (case r of Inl e \<Rightarrow> Inl e | Inr s \<Rightarrow> Inr (Scalar s))"

definition as_vector :: "tf_error + real list \<Rightarrow> tf_error + loss_value" where
  "as_vector r = (case r of Inl e \<Rightarrow> Inl e | Inr v \<Rightarrow> Inr (PerSample v))"

fun loss_graph :: "loss_class \<Rightarrow> loss_inputs \<Rightarrow> tf_error + loss_value" where
  "loss_graph RMSELossGraph kw =
     as_scalar (RMSE_loss_graph (tf_prediction_serial kw) (tf_interactions_serial kw))"
| "loss_graph RMSEDenseLossGraph kw =
     as_scalar (RMSEDense_loss_graph (tf_interactions kw) (tf_prediction kw))"
| "loss_graph SeparationLossGraph kw =
     as_scalar (Separation_loss_graph (tf_prediction_serial kw) (tf_interactions_serial kw))"
| "loss_graph WMRBLossGraph kw =
     as_vector (WMRB_loss_graph (tf_prediction kw) (tf_interactions kw) (tf_sample_predictions kw))"
| "loss_graph WMRBAlignmentLossGraph kw =
     as_vector (WMRBAlignment_loss_graph (tf_alignment kw) (tf_interactions kw) (tf_sample_alignments kw))"

text \<open>Two calls agree on the tensors that the signature of a class names.\<close>

fun same_named_inputs :: "loss_class \<Rightarrow> loss_inputs \<Rightarrow> loss_inputs \<Rightarrow> bool" where
  "same_named_inputs RMSELossGraph a b =
     (tf_prediction_serial a = tf_prediction_serial b \<and> tf_interactions_serial a = tf_interactions_serial b)"
| "same_named_inputs RMSEDenseLossGraph a b =
     (tf_interactions a = tf_interactions b \<and> tf_prediction a = tf_prediction b)"
| "same_named_inputs SeparationLossGraph a b =
     (tf_prediction_serial a = tf_prediction_serial b \<and> tf_interactions_serial a = tf_interactions_serial b)"
| "same_named_inputs WMRBLossGraph a b =
     (tf_prediction a = tf_prediction b \<and> tf_interactions a = tf_interactions b
      \<and> tf_sample_predictions a = tf_sample_predictions b)"
| "same_named_inputs WMRBAlignmentLossGraph a b =
     (tf_alignment a = tf_alignment b \<and> tf_interactions a = tf_interactions b
      \<and> tf_sample_alignments a = tf_sample_alignments b)"

subsection \<open>The notions of the specification\<close>

text \<open>
  The definitions below follow the words of the specification, not the code; the
  theorems compare them with the functions above.
\<close>

text \<open>The index pairs of the interactions whose value is strictly positive, in order.\<close>

definition positive_interactions :: "sparse_tensor \<Rightarrow> (int \<times> int) list" where
  "positive_interactions sp = map fst (filter (\<lambda>e. 0 < snd e) (zip (sp_indices sp) (sp_values sp)))"

text \<open>The margin of one positive pair, for \<open>k\<close> sampled items.\<close>

definition margin :: "real \<Rightarrow> real \<Rightarrow> real \<Rightarrow> real" where
  "margin k p s = k - k * p + s + k"

text \<open>The two groups of serial predictions, by the sign of the interaction.\<close>

definition positive_group :: "real list \<Rightarrow> real list \<Rightarrow> real list" where
  "positive_group predictions interactions =
     map fst (filter (\<lambda>e. 0 < snd e) (zip predictions interactions))"

definition non_positive_group :: "real list \<Rightarrow> real list \<Rightarrow> real list" where
  "non_positive_group predictions interactions =
     map fst (filter (\<lambda>e. snd e \<le> 0) (zip predictions interactions))"

definition sample_mean :: "real list \<Rightarrow> real" where
  "sample_mean xs = sum_list xs / real (length xs)"

definition sample_variance :: "real list \<Rightarrow> real" where
  "sample_variance xs = sum_list (map (\<lambda>x. (x - sample_mean xs)\<^sup>2) xs) / real (length xs)"

text \<open>
  The serial samples are the cells of the sparse interaction matrix: each sample is
  one stored, nonzero interaction at a cell of its own inside the matrix, its serial
  prediction is the dense prediction at that cell, and the dense prediction is 0 at
  every cell that holds no sample.
\<close>

definition covers_serial_samples :: "sparse_tensor \<Rightarrow> dense \<Rightarrow> real list \<Rightarrow> real list \<Rightarrow> bool" where
  "covers_serial_samples sp d predictions interactions =
     (wf_dense d \<and> sp_dense_shape sp = (n_rows d, n_cols d)
      \<and> sp_values sp = interactions \<and> length (sp_indices sp) = length interactions
      \<and> distinct (sp_indices sp) \<and> list_all (in_range (n_rows d) (n_cols d)) (sp_indices sp)
      \<and> list_all (\<lambda>v. v \<noteq> 0) interactions
      \<and> predictions = map (\<lambda>idx. rows d ! nat (fst idx) ! nat (snd idx)) (sp_indices sp)
      \<and> list_all (\<lambda>r. list_all (\<lambda>c. (int r, int c) \<in> set (sp_indices sp) \<or> rows d ! r ! c = 0)
                                [0..<n_cols d]) [0..<n_rows d])"

section \<open>Properties\<close>

subsection \<open>The standard normal distribution function\<close>

lemma erf_zero: "erf 0 = 0"
  by (simp add: erf_def)

lemma ndtr_zero: "ndtr 0 = 1 / 2"
  by (simp add: ndtr_def erf_zero)

subsection \<open>RMSE\<close>

lemma sum_list_map2_nth:
  "length xs = length ys \<Longrightarrow> sum_list (map2 f xs ys) = (\<Sum>k<length xs. f (xs ! k) (ys ! k))"
  by (simp add: sum_list_sum_nth atLeast0LessThan)

lemma tf_subtract_same_length:
  "length xs = length ys \<Longrightarrow> tf_subtract xs ys = Inr (map2 (\<lambda>x y. x - y) xs ys)"
  by (simp add: tf_subtract_def tf_broadcast_def)

lemma RMSE_same_length:
  assumes "length interactions = length predictions"
  shows "RMSE_loss_graph predictions interactions =
     Inr (if predictions = [] then None
          else Some (sqrt (sum_list (map2 (\<lambda>i p. (i - p) * (i - p)) interactions predictions)
                           / real (length predictions))))"
proof -
  have sq: "tf_square (map2 (\<lambda>x y. x - y) interactions predictions)
      = map2 (\<lambda>i p. (i - p) * (i - p)) interactions predictions"
    by (simp add: tf_square_def split_def)
  have nonneg: "0 \<le> sum_list (map2 (\<lambda>i p. (i - p) * (i - p)) interactions predictions)"
    by (rule sum_list_nonneg) auto
  then have "\<not> sum_list (map2 (\<lambda>i p. (i - p) * (i - p)) interactions predictions)
      / real (length predictions) < 0"
    by (simp add: not_less)
  then show ?thesis
    using assms
    by (auto simp: RMSE_loss_graph_def tf_subtract_same_length sq tf_reduce_mean_def tf_sqrt_def)
qed

lemma sum_list_squares_zero:
  "length xs = length ys \<Longrightarrow>
   (sum_list (map2 (\<lambda>i p. (i - p) * (i - p)) xs ys) = 0) = (xs = (ys::real list))"
proof (induction xs ys rule: list_induct2)
  case Nil
  then show ?case by simp
next
  case (Cons x xs y ys)
  have "0 \<le> sum_list (map2 (\<lambda>i p. (i - p) * (i - p)) xs ys)"
    by (rule sum_list_nonneg) auto
  moreover have "0 \<le> (x - y) * (x - y)" by simp
  ultimately have "((x - y) * (x - y) + sum_list (map2 (\<lambda>i p. (i - p) * (i - p)) xs ys) = 0)
      = ((x - y) * (x - y) = 0 \<and> sum_list (map2 (\<lambda>i p. (i - p) * (i - p)) xs ys) = 0)"
    using add_nonneg_eq_0_iff[of "(x - y) * (x - y)"] by blast
  with Cons.IH show ?case by simp
qed

text \<open>
  C7. For serial interaction and prediction vectors of equal length,
  \<^verbatim>\<open>RMSELossGraph.loss_graph\<close> returns the square root of the mean of the squared
  differences \<open>(interactions_serial - predictions_serial)\<^sup>2\<close>. The mean of no entries is
  NaN, and so is the loss of two empty vectors.
\<close>

theorem RMSE_loss_graph_formula:
  assumes "length interactions = length predictions"
  shows "RMSE_loss_graph predictions interactions =
     Inr (if predictions = [] then None
          else Some (sqrt ((\<Sum>k<length predictions. (interactions ! k - predictions ! k)\<^sup>2)
                           / real (length predictions))))"
  using assms by (simp add: RMSE_same_length sum_list_map2_nth power2_eq_square)

theorem RMSE_loss_graph_formula_witness:
  "length [0, 4 :: real] = length [0, 0 :: real]
   \<and> RMSE_loss_graph [0, 0] [0, 4] = Inr (Some (sqrt 8))"
  using RMSE_loss_graph_formula [of "[0, 4]" "[0, 0]"] by (simp add: lessThan_Suc numeral_2_eq_2)

text \<open>
  C8, as stated: for all prediction and interaction vectors of equal length the RMSE
  loss is non-negative, and it is 0 exactly when the predictions equal the
  interactions. Two empty vectors are equal and of equal length, yet their loss is
  NaN, not 0.
\<close>

theorem RMSE_empty_is_nan:
  "RMSE_loss_graph [] [] = Inr None \<and> RMSE_loss_graph [] [] \<noteq> Inr (Some 0)"
  by (simp add: RMSE_same_length)

text \<open>
  C8, amended: for all non-empty prediction and interaction vectors of equal length
  the RMSE loss is non-negative and is 0 when the predictions equal the interactions;
  in exact real arithmetic, the arithmetic of this theory, it is 0 only when they are
  equal (the rounding of \<^verbatim>\<open>float32\<close>, where the square of a small difference can
  underflow to 0, is set aside). Predictions \<open>[1,2,3]\<close> with interactions \<open>[1,2,3]\<close>
  give loss 0, and predictions \<open>[0,0,0]\<close> with interactions \<open>[1,1,1]\<close> give loss 1.
\<close>

theorem RMSE_nonneg_zero_iff:
  assumes "length interactions = length predictions" and "predictions \<noteq> []"
  shows "(\<exists>v. RMSE_loss_graph predictions interactions = Inr (Some v) \<and> 0 \<le> v
            \<and> (v = 0 \<longleftrightarrow> predictions = interactions))
         \<and> RMSE_loss_graph [1, 2, 3] [1, 2, 3] = Inr (Some 0)
         \<and> RMSE_loss_graph [0, 0, 0] [1, 1, 1] = Inr (Some 1)"
proof -
  let ?sse = "sum_list (map2 (\<lambda>i p. (i - p) * (i - p)) interactions predictions)"
  let ?v = "sqrt (?sse / real (length predictions))"
  have run: "RMSE_loss_graph predictions interactions = Inr (Some ?v)"
    using assms by (simp add: RMSE_same_length)
  have "0 \<le> ?sse" by (rule sum_list_nonneg) auto
  then have nonneg: "0 \<le> ?v" by simp
  have "(?v = 0) = (?sse = 0)" using assms(2) by simp
  also have "\<dots> = (interactions = predictions)"
    using assms(1) by (rule sum_list_squares_zero)
  finally have "(?v = 0) = (predictions = interactions)" by auto
  with run nonneg have "\<exists>v. RMSE_loss_graph predictions interactions = Inr (Some v) \<and> 0 \<le> v
            \<and> (v = 0 \<longleftrightarrow> predictions = interactions)" by blast
  moreover have "RMSE_loss_graph [1, 2, 3] [1, 2, 3] = Inr (Some 0)"
    by (simp add: RMSE_same_length)
  moreover have "RMSE_loss_graph [0, 0, 0] [1, 1, 1] = Inr (Some 1)"
    by (simp add: RMSE_same_length)
  ultimately show ?thesis by blast
qed

theorem RMSE_nonneg_zero_iff_witness:
  "length [3, 5 :: real] = length [0, 1 :: real] \<and> [0, 1 :: real] \<noteq> []
   \<and> RMSE_loss_graph [0, 1] [3, 5] \<noteq> Inr (Some 0)
   \<and> RMSE_loss_graph [1, 2, 3] [1, 2, 3] = Inr (Some 0)"
  using RMSE_nonneg_zero_iff [of "[3, 5]" "[0, 1]"] by auto

subsection \<open>Separation\<close>

lemma mask_filter:
  "length xs = length ys \<Longrightarrow>
   map fst (filter snd (zip xs (map P ys))) = map fst (filter (\<lambda>e. P (snd e)) (zip xs ys))"
  by (induction xs ys rule: list_induct2) auto

lemma boolean_mask_greater:
  "length xs = length ys \<Longrightarrow>
   tf_boolean_mask xs (tf_greater ys 0) = Inr (map fst (filter (\<lambda>e. 0 < snd e) (zip xs ys)))"
  by (simp add: tf_boolean_mask_def tf_greater_def mask_filter)

lemma boolean_mask_less_equal:
  "length xs = length ys \<Longrightarrow>
   tf_boolean_mask xs (tf_less_equal ys 0) = Inr (map fst (filter (\<lambda>e. snd e \<le> 0) (zip xs ys)))"
  by (simp add: tf_boolean_mask_def tf_less_equal_def mask_filter)

lemma moments_nonempty:
  "xs \<noteq> [] \<Longrightarrow> tf_nn_moments xs = (Some (sample_mean xs), Some (sample_variance xs))"
  by (simp add: tf_nn_moments_def tf_reduce_mean_def sample_mean_def sample_variance_def power2_eq_square)

lemma moments_empty: "tf_nn_moments [] = (None, None)"
  by (simp add: tf_nn_moments_def tf_reduce_mean_def)

lemma sample_variance_nonneg: "0 \<le> sample_variance xs"
  unfolding sample_variance_def
  by (intro divide_nonneg_nonneg sum_list_nonneg) auto

lemma Separation_same_length:
  assumes "length predictions = length interactions"
  shows "Separation_loss_graph predictions interactions =
     Inr (let (pos_mean, pos_var) = tf_nn_moments (positive_group predictions interactions);
              (neg_mean, neg_var) = tf_nn_moments (non_positive_group predictions interactions)
          in scalar_op (\<lambda>x y. x - y) (Some 1)
               (tf_Normal_cdf (scalar_op (\<lambda>x y. x - y) neg_mean pos_mean)
                              (tf_sqrt (scalar_op (\<lambda>x y. x + y) neg_var pos_var)) 0))"
  using assms
  by (simp add: Separation_loss_graph_def boolean_mask_greater boolean_mask_less_equal
      positive_group_def non_positive_group_def Let_def split: prod.splits)

lemma Separation_both_groups:
  assumes "length predictions = length interactions"
    and "positive_group predictions interactions \<noteq> []"
    and "non_positive_group predictions interactions \<noteq> []"
  shows "Separation_loss_graph predictions interactions =
     Inr (map_option (\<lambda>c. 1 - c)
           (Normal_cdf (sample_mean (non_positive_group predictions interactions)
                          - sample_mean (positive_group predictions interactions))
                       (sqrt (sample_variance (non_positive_group predictions interactions)
                              + sample_variance (positive_group predictions interactions)))
                       0))"
proof -
  let ?pos = "positive_group predictions interactions"
  let ?neg = "non_positive_group predictions interactions"
  have "\<not> sample_variance ?neg + sample_variance ?pos < 0"
    using sample_variance_nonneg[of ?neg] sample_variance_nonneg[of ?pos] by linarith
  then show ?thesis
    using assms
    by (cases "Normal_cdf (sample_mean ?neg - sample_mean ?pos)
                 (sqrt (sample_variance ?neg + sample_variance ?pos)) 0")
       (simp_all add: Separation_same_length moments_nonempty scalar_op_def tf_sqrt_def tf_Normal_cdf_def)
qed

lemma Separation_empty_group:
  assumes "length predictions = length interactions"
    and "positive_group predictions interactions = [] \<or> non_positive_group predictions interactions = []"
  shows "Separation_loss_graph predictions interactions = Inr None"
  using assms
  by (auto simp: Separation_same_length moments_empty scalar_op_def tf_sqrt_def tf_Normal_cdf_def
      split: prod.splits option.splits)

lemma Separation_mismatch:
  "length predictions \<noteq> length interactions \<Longrightarrow>
   Separation_loss_graph predictions interactions = Inl InvalidArgument"
  by (simp add: Separation_loss_graph_def tf_boolean_mask_def tf_greater_def Let_def)

lemma positive_group_empty_iff:
  "length predictions = length interactions \<Longrightarrow>
   (positive_group predictions interactions = []) = (\<forall>i\<in>set interactions. i \<le> 0)"
  by (induction predictions interactions rule: list_induct2) (auto simp: positive_group_def not_less)

lemma non_positive_group_empty_iff:
  "length predictions = length interactions \<Longrightarrow>
   (non_positive_group predictions interactions = []) = (\<forall>i\<in>set interactions. 0 < i)"
  by (induction predictions interactions rule: list_induct2) (auto simp: non_positive_group_def not_le)

lemma Separation_sign_only:
  assumes "map (\<lambda>i. 0 < i) interactions' = map (\<lambda>i. 0 < i) interactions"
  shows "Separation_loss_graph predictions interactions' = Separation_loss_graph predictions interactions"
proof -
  have "map (\<lambda>b. \<not> b) (map (\<lambda>i. 0 < i) interactions') = map (\<lambda>b. \<not> b) (map (\<lambda>i. 0 < i) interactions)"
    using assms by simp
  then have "map (\<lambda>i. i \<le> (0::real)) interactions' = map (\<lambda>i. i \<le> 0) interactions"
    by (simp add: not_less comp_def)
  with assms show ?thesis
    by (simp add: Separation_loss_graph_def tf_greater_def tf_less_equal_def)
qed


lemma groups_swap:
  assumes "length predictions = length interactions"
    and "map (\<lambda>i. 0 < i) interactions' = map (\<lambda>i. i \<le> 0) interactions"
  shows "positive_group (map uminus predictions) interactions'
           = map uminus (non_positive_group predictions interactions)
       \<and> non_positive_group (map uminus predictions) interactions'
           = map uminus (positive_group predictions interactions)"
proof -
  have "length interactions' = length interactions"
    using assms(2) by (rule map_eq_imp_length_eq)
  with assms(1) have "length predictions = length interactions'"
    and "length interactions' = length interactions"
    by simp_all
  then show ?thesis
    using assms(2)
    by (induction predictions interactions' interactions rule: list_induct3)
       (auto simp: positive_group_def non_positive_group_def)
qed

lemma negation_swaps_labels:
  assumes "list_all (\<lambda>i. i \<noteq> 0) interactions"
  shows "map (\<lambda>i. 0 < i) (map uminus interactions) = map (\<lambda>i. i \<le> 0) (interactions :: real list)"
  using assms by (induction interactions) auto

lemma sample_mean_uminus: "sample_mean (map uminus xs) = - sample_mean xs"
proof -
  have "sum_list (map uminus xs) = - sum_list xs"
    by (induction xs) auto
  then show ?thesis by (simp add: sample_mean_def)
qed

lemma sample_variance_uminus: "sample_variance (map uminus xs) = sample_variance xs"
proof -
  have "(\<lambda>x. (- x - - sample_mean xs)\<^sup>2) = (\<lambda>x. (x - sample_mean xs)\<^sup>2)"
    by (rule ext) (simp add: power2_commute)
  then show ?thesis
    by (simp add: sample_variance_def sample_mean_uminus comp_def)
qed

text \<open>
  C3. \<^verbatim>\<open>SeparationLossGraph.loss_graph\<close> splits the serial predictions into the group
  whose interaction is strictly positive and the group whose interaction is at most 0
  (so an interaction of 0 counts as non-positive), takes the mean and the variance of
  each group, and returns 1 minus the distribution function at 0 of the Normal
  distribution with \<open>loc = neg_mean - pos_mean\<close> and
  \<open>scale = sqrt (neg_var + pos_var)\<close>; the mean of an empty group is NaN and so is the
  loss then. Interactions with the same signs give the same loss.
\<close>

theorem Separation_loss_graph_formula:
  assumes "length predictions = length interactions"
  shows "Separation_loss_graph predictions interactions =
           Inr (if positive_group predictions interactions = []
                   \<or> non_positive_group predictions interactions = [] then None
                else map_option (\<lambda>c. 1 - c)
                  (Normal_cdf (sample_mean (non_positive_group predictions interactions)
                                 - sample_mean (positive_group predictions interactions))
                              (sqrt (sample_variance (non_positive_group predictions interactions)
                                     + sample_variance (positive_group predictions interactions)))
                              0))
         \<and> (\<forall>interactions'. map (\<lambda>i. 0 < i) interactions' = map (\<lambda>i. 0 < i) interactions
              \<longrightarrow> Separation_loss_graph predictions interactions'
                    = Separation_loss_graph predictions interactions)"
proof (intro conjI allI impI)
  show "Separation_loss_graph predictions interactions =
           Inr (if positive_group predictions interactions = []
                   \<or> non_positive_group predictions interactions = [] then None
                else map_option (\<lambda>c. 1 - c)
                  (Normal_cdf (sample_mean (non_positive_group predictions interactions)
                                 - sample_mean (positive_group predictions interactions))
                              (sqrt (sample_variance (non_positive_group predictions interactions)
                                     + sample_variance (positive_group predictions interactions)))
                              0))"
  proof (cases "positive_group predictions interactions = []
                   \<or> non_positive_group predictions interactions = []")
    case True
    with assms show ?thesis by (simp add: Separation_empty_group)
  next
    case False
    with assms show ?thesis by (simp add: Separation_both_groups)
  qed
next
  fix interactions' :: "real list"
  assume "map (\<lambda>i. 0 < i) interactions' = map (\<lambda>i. 0 < i) interactions"
  then show "Separation_loss_graph predictions interactions'
                    = Separation_loss_graph predictions interactions"
    by (rule Separation_sign_only)
qed

theorem Separation_loss_graph_formula_witness:
  "length [0, 2, 5 :: real] = length [1, 1, 0 :: real]
   \<and> Separation_loss_graph [0, 2, 5] [1, 1, 0] = Inr (Some (1 - ndtr (- 4)))
   \<and> Separation_loss_graph [0, 2, 5] [7, 3, - 2] = Inr (Some (1 - ndtr (- 4)))"
proof -
  have len: "length [0, 2, 5 :: real] = length [1, 1, 0 :: real]"
    by simp
  note inst = Separation_loss_graph_formula [OF len]
  have sign: "map (\<lambda>i. 0 < i) [7, 3, - 2 :: real] = map (\<lambda>i. 0 < i) [1, 1, 0 :: real]"
    by simp
  have run: "Separation_loss_graph [0, 2, 5] [1, 1, 0] = Inr (Some (1 - ndtr (- 4)))"
    using inst
    by (simp add: positive_group_def non_positive_group_def sample_mean_def sample_variance_def
        Normal_cdf_def)
  have "Separation_loss_graph [0, 2, 5] [7, 3, - 2] = Separation_loss_graph [0, 2, 5] [1, 1, 0]"
    using inst sign by blast
  with run show ?thesis by simp
qed

lemma Separation_swap:
  assumes swap: "map (\<lambda>i. 0 < i) interactions' = map (\<lambda>i. i \<le> 0) interactions"
  shows "Separation_loss_graph (map uminus predictions) interactions'
           = Separation_loss_graph predictions interactions"
proof (cases "length predictions = length interactions")
  case False
  moreover have "length interactions' = length interactions"
    using swap by (rule map_eq_imp_length_eq)
  ultimately show ?thesis by (simp add: Separation_mismatch)
next
  case len: True
  have len': "length (map uminus predictions) = length interactions'"
    using len map_eq_imp_length_eq[OF swap] by simp
  let ?pos = "positive_group predictions interactions"
  let ?neg = "non_positive_group predictions interactions"
  note flip = groups_swap[OF len swap]
  show ?thesis
  proof (cases "?pos = [] \<or> ?neg = []")
    case True
    then have "positive_group (map uminus predictions) interactions' = []
        \<or> non_positive_group (map uminus predictions) interactions' = []"
      using flip by auto
    with len' have "Separation_loss_graph (map uminus predictions) interactions' = Inr None"
      by (rule Separation_empty_group)
    moreover have "Separation_loss_graph predictions interactions = Inr None"
      using len True by (rule Separation_empty_group)
    ultimately show ?thesis by simp
  next
    case False
    then have ne: "?pos \<noteq> []" "?neg \<noteq> []" by simp_all
    have "Separation_loss_graph (map uminus predictions) interactions' =
      Inr (map_option (\<lambda>c. 1 - c)
           (Normal_cdf (sample_mean (map uminus ?pos) - sample_mean (map uminus ?neg))
                       (sqrt (sample_variance (map uminus ?pos) + sample_variance (map uminus ?neg)))
                       0))"
      using len' ne flip by (subst Separation_both_groups) simp_all
    also have "\<dots> = Separation_loss_graph predictions interactions"
      using len ne
      by (simp add: Separation_both_groups sample_mean_uminus sample_variance_uminus add.commute)
    finally show ?thesis .
  qed
qed

text \<open>
  C4. Negating every prediction and exchanging the labels of the two groups (the
  interactions of the new call are strictly positive exactly where those of the old
  call are at most 0) leaves the value of \<^verbatim>\<open>SeparationLossGraph.loss_graph\<close>
  unchanged, for every serial pair. Flipping the sign of every interaction exchanges
  the labels when no interaction is 0, and then leaves the loss unchanged too.
\<close>

theorem Separation_label_swap_symmetric:
  "(map (\<lambda>i. 0 < i) interactions' = map (\<lambda>i. i \<le> 0) interactions
      \<longrightarrow> Separation_loss_graph (map uminus predictions) interactions'
            = Separation_loss_graph predictions interactions)
   \<and> (list_all (\<lambda>i. i \<noteq> 0) interactions
      \<longrightarrow> Separation_loss_graph (map uminus predictions) (map uminus interactions)
            = Separation_loss_graph predictions interactions)"
proof (intro conjI impI)
  assume "map (\<lambda>i. 0 < i) interactions' = map (\<lambda>i. i \<le> 0) interactions"
  then show "Separation_loss_graph (map uminus predictions) interactions'
            = Separation_loss_graph predictions interactions"
    by (rule Separation_swap)
next
  assume "list_all (\<lambda>i. i \<noteq> 0) interactions"
  then have "map (\<lambda>i. 0 < i) (map uminus interactions) = map (\<lambda>i. i \<le> 0) interactions"
    by (rule negation_swaps_labels)
  then show "Separation_loss_graph (map uminus predictions) (map uminus interactions)
            = Separation_loss_graph predictions interactions"
    by (rule Separation_swap)
qed

theorem Separation_label_swap_symmetric_witness:
  "map (\<lambda>i. 0 < i) [- 1, - 1, 1 :: real] = map (\<lambda>i. i \<le> 0) [1, 1, 0 :: real]
   \<and> Separation_loss_graph [0, 2, 5] [1, 1, 0] = Inr (Some (1 - ndtr (- 4)))
   \<and> Separation_loss_graph [0, - 2, - 5] [- 1, - 1, 1] = Inr (Some (1 - ndtr (- 4)))
   \<and> Separation_loss_graph [0, - 2, - 5] [- 1, - 1, 3] = Inr (Some (1 - ndtr (- 4)))"
proof -
  have swap: "map (\<lambda>i. 0 < i) [- 1, - 1, 1 :: real] = map (\<lambda>i. i \<le> 0) [1, 1, 0 :: real]"
    by simp
  have nonzero: "list_all (\<lambda>i. i \<noteq> 0) [1, 1, - 3 :: real]"
    by simp
  have run: "Separation_loss_graph [0, 2, 5] [1, 1, i] = Inr (Some (1 - ndtr (- 4)))"
    if "i \<le> 0" for i :: real
    using that
    by (simp add: Separation_both_groups positive_group_def non_positive_group_def
        sample_mean_def sample_variance_def Normal_cdf_def)
  have "Separation_loss_graph (map uminus [0, 2, 5]) [- 1, - 1, 1]
      = Separation_loss_graph [0, 2, 5] [1, 1, 0]"
    using Separation_label_swap_symmetric [of "[- 1, - 1, 1]" "[1, 1, 0]" "[0, 2, 5]"] swap
    by blast
  moreover have "Separation_loss_graph (map uminus [0, 2, 5]) (map uminus [1, 1, - 3])
      = Separation_loss_graph [0, 2, 5] [1, 1, - 3]"
    using Separation_label_swap_symmetric [of "[- 1, - 1, 3]" "[1, 1, - 3]" "[0, 2, 5]"] nonzero
    by blast
  ultimately show ?thesis
    using run [of 0] run [of "- 3"] swap by simp
qed

text \<open>
  C10. \<^verbatim>\<open>SeparationLossGraph.loss_graph\<close> returns a number only when the serial
  interactions hold a strictly positive entry and an entry that is at most 0: when
  all interactions are at most 0, or all are strictly positive, a group is empty and
  the loss is NaN.
\<close>

theorem Separation_needs_both_groups:
  "(Separation_loss_graph predictions interactions = Inr (Some v)
      \<longrightarrow> (\<exists>i\<in>set interactions. 0 < i) \<and> (\<exists>i\<in>set interactions. i \<le> 0))
   \<and> (length predictions = length interactions
        \<and> ((\<forall>i\<in>set interactions. i \<le> 0) \<or> (\<forall>i\<in>set interactions. 0 < i))
      \<longrightarrow> Separation_loss_graph predictions interactions = Inr None)"
proof (cases "length predictions = length interactions")
  case False
  then show ?thesis by (simp add: Separation_mismatch)
next
  case True
  have nan: "Separation_loss_graph predictions interactions = Inr None"
    if "(\<forall>i\<in>set interactions. i \<le> 0) \<or> (\<forall>i\<in>set interactions. 0 < i)"
    using True that
    by (intro Separation_empty_group)
       (simp_all add: positive_group_empty_iff non_positive_group_empty_iff)
  have "(\<exists>i\<in>set interactions. 0 < i) \<and> (\<exists>i\<in>set interactions. i \<le> 0)"
    if some: "Separation_loss_graph predictions interactions = Inr (Some v)"
  proof (rule ccontr)
    assume "\<not> ((\<exists>i\<in>set interactions. 0 < i) \<and> (\<exists>i\<in>set interactions. i \<le> 0))"
    then have "(\<forall>i\<in>set interactions. i \<le> 0) \<or> (\<forall>i\<in>set interactions. 0 < i)"
      by (auto simp: not_le not_less)
    then have "Separation_loss_graph predictions interactions = Inr None" by (rule nan)
    with some show False by simp
  qed
  with nan show ?thesis by blast
qed

theorem Separation_needs_both_groups_witness:
  "Separation_loss_graph [3, 4] [1, 2] = Inr None
   \<and> Separation_loss_graph [3, 4] [- 1, 0] = Inr None"
  using Separation_needs_both_groups [of "[3, 4]" "[1, 2]"]
    Separation_needs_both_groups [of "[3, 4]" "[- 1, 0]"]
  by simp

subsection \<open>WMRB\<close>

lemma positive_indices_mask:
  assumes "length (sp_indices sp) = length (sp_values sp)"
  shows "tf_boolean_mask (sp_indices sp) (tf_greater (sp_values sp) 0) = Inr (positive_interactions sp)"
  using assms by (simp add: boolean_mask_greater positive_interactions_def)

lemma tf_add_map_map:
  "tf_add (map f xs) (map g xs) = Inr (map (\<lambda>x. f x + g x) xs)"
  by (simp add: tf_add_def tf_broadcast_def map2_map_map)

lemma gather_row_sums:
  assumes "list_all (\<lambda>idx. 0 \<le> fst idx \<and> fst idx < int (n_rows S)) idxs"
  shows "tf_gather (tf_reduce_sum_axis1 S) (map fst idxs)
         = Inr (map (\<lambda>idx. sum_list (rows S ! nat (fst idx))) idxs)"
proof -
  have "list_all (\<lambda>i. 0 \<le> i \<and> i < int (length (tf_reduce_sum_axis1 S))) (map fst idxs)"
    using assms by (simp add: list_all_iff tf_reduce_sum_axis1_def n_rows_def)
  moreover have "map (\<lambda>i. tf_reduce_sum_axis1 S ! nat i) (map fst idxs)
        = map (\<lambda>idx. sum_list (rows S ! nat (fst idx))) idxs"
    using assms by (auto simp: list_all_iff tf_reduce_sum_axis1_def n_rows_def)
  ultimately show ?thesis by (simp add: tf_gather_def)
qed

lemma WMRB_in_range:
  assumes "length (sp_indices sp) = length (sp_values sp)"
    and "list_all (in_range (n_rows P) (n_cols P)) (positive_interactions sp)"
    and "list_all (\<lambda>idx. 0 \<le> fst idx \<and> fst idx < int (n_rows S)) (positive_interactions sp)"
  shows "WMRB_loss_graph P sp S =
     Inr (map (\<lambda>idx. margin (real (n_cols S)) (rows P ! nat (fst idx) ! nat (snd idx))
                              (sum_list (rows S ! nat (fst idx))))
              (positive_interactions sp))"
proof -
  let ?k = "real (n_cols S)"
  have gnd: "tf_gather_nd P (positive_interactions sp)
      = Inr (map (\<lambda>idx. rows P ! nat (fst idx) ! nat (snd idx)) (positive_interactions sp))"
    using assms(2) by (simp add: tf_gather_nd_def)
  show ?thesis
    unfolding WMRB_loss_graph_def Let_def
    by (simp add: positive_indices_mask[OF assms(1)] gnd gather_row_sums[OF assms(3)]
        tf_add_map_map margin_def comp_def)
qed

lemma length_positive_interactions:
  assumes "length (sp_indices sp) = length (sp_values sp)"
  shows "length (positive_interactions sp) = length (filter (\<lambda>v. 0 < v) (sp_values sp))"
proof -
  have "length xs = length ys \<Longrightarrow>
      length (filter (\<lambda>e. 0 < snd e) (zip xs ys)) = length (filter (\<lambda>v. 0 < v) ys)"
    for xs :: "(int \<times> int) list" and ys :: "real list"
    by (induction xs ys rule: list_induct2) auto
  with assms show ?thesis by (simp add: positive_interactions_def)
qed

text \<open>
  C1. \<^verbatim>\<open>WMRBLossGraph.loss_graph\<close> looks only at the interactions whose value is
  strictly positive: for well-formed tensors whose positive interactions lie inside
  the prediction matrix and name a row of the sample predictions, it returns the
  vector that holds, for each positive \<open>(user, item)\<close> pair in order, the entry
  \<open>k - k * prediction(user, item) + (sum of the user's sampled predictions) + k\<close>,
  where \<open>k\<close> is the number of columns of the sample predictions. The vector has one
  entry for each strictly positive interaction and is not reduced, and a sparse
  tensor with the same positive interactions gives the same vector.
\<close>

theorem WMRB_loss_graph_margins:
  assumes "wf_dense P" and "wf_dense S"
    and "length (sp_indices sp) = length (sp_values sp)"
    and "list_all (in_range (n_rows P) (n_cols P)) (positive_interactions sp)"
    and "list_all (\<lambda>idx. 0 \<le> fst idx \<and> fst idx < int (n_rows S)) (positive_interactions sp)"
  shows "WMRB_loss_graph P sp S =
           Inr (map (\<lambda>idx. real (n_cols S) - real (n_cols S) * (rows P ! nat (fst idx) ! nat (snd idx))
                           + sum_list (rows S ! nat (fst idx)) + real (n_cols S))
                    (positive_interactions sp))
         \<and> length (positive_interactions sp) = length (filter (\<lambda>v. 0 < v) (sp_values sp))
         \<and> (\<forall>sp'. length (sp_indices sp') = length (sp_values sp')
                  \<and> positive_interactions sp' = positive_interactions sp
               \<longrightarrow> WMRB_loss_graph P sp' S = WMRB_loss_graph P sp S)"
proof (intro conjI allI impI)
  show "WMRB_loss_graph P sp S =
           Inr (map (\<lambda>idx. real (n_cols S) - real (n_cols S) * (rows P ! nat (fst idx) ! nat (snd idx))
                           + sum_list (rows S ! nat (fst idx)) + real (n_cols S))
                    (positive_interactions sp))"
    using WMRB_in_range[OF assms(3-5)] by (simp add: margin_def)
next
  show "length (positive_interactions sp) = length (filter (\<lambda>v. 0 < v) (sp_values sp))"
    using assms(3) by (rule length_positive_interactions)
next
  fix sp' :: sparse_tensor
  assume same: "length (sp_indices sp') = length (sp_values sp')
      \<and> positive_interactions sp' = positive_interactions sp"
  then have "WMRB_loss_graph P sp' S =
     Inr (map (\<lambda>idx. margin (real (n_cols S)) (rows P ! nat (fst idx) ! nat (snd idx))
                              (sum_list (rows S ! nat (fst idx))))
              (positive_interactions sp'))"
    using assms(4,5) by (intro WMRB_in_range) simp_all
  with same show "WMRB_loss_graph P sp' S = WMRB_loss_graph P sp S"
    using WMRB_in_range[OF assms(3-5)] by simp
qed

theorem WMRB_loss_graph_margins_witness:
  "WMRB_loss_graph \<lparr>n_cols = 2, rows = [[1, 2], [3, 4]]\<rparr>
      \<lparr>sp_indices = [(0, 1), (1, 0), (1, 1)], sp_values = [5, - 1, 2], sp_dense_shape = (2, 2)\<rparr>
      \<lparr>n_cols = 3, rows = [[1, 1, 1], [0, 2, 0]]\<rparr>
    = Inr [3, - 4]"
proof -
  let ?P = "\<lparr>n_cols = 2, rows = [[1, 2], [3, 4 :: real]]\<rparr>"
  let ?S = "\<lparr>n_cols = 3, rows = [[1, 1, 1], [0, 2, 0 :: real]]\<rparr>"
  let ?sp = "\<lparr>sp_indices = [(0, 1), (1, 0), (1, 1)], sp_values = [5, - 1, 2], sp_dense_shape = (2, 2)\<rparr>"
  have pos: "positive_interactions ?sp = [(0, 1), (1, 1)]"
    by (simp add: positive_interactions_def)
  have "wf_dense ?P" and "wf_dense ?S"
    by (simp_all add: wf_dense_def)
  moreover have "length (sp_indices ?sp) = length (sp_values ?sp)"
    by simp
  moreover have "list_all (in_range (n_rows ?P) (n_cols ?P)) (positive_interactions ?sp)"
    by (simp add: pos in_range_def n_rows_def)
  moreover have "list_all (\<lambda>idx. 0 \<le> fst idx \<and> fst idx < int (n_rows ?S)) (positive_interactions ?sp)"
    by (simp add: pos n_rows_def)
  ultimately show ?thesis
    using WMRB_loss_graph_margins [of ?P ?S ?sp] by (simp add: pos)
qed

text \<open>
  C6, as stated: raising the prediction \<open>p\<close> of a positive pair, with the sampled
  predictions fixed, strictly lowers its margin \<open>k - k * p + s + k\<close>, for every number
  \<open>k\<close> of sampled items. With no sampled items (\<open>k = 0\<close>) the margin is 0 for every
  prediction: predictions 1 and 2 give the same margin.
\<close>

theorem WMRB_margin_constant_without_samples:
  "WMRB_loss_graph \<lparr>n_cols = 1, rows = [[1]]\<rparr>
      \<lparr>sp_indices = [(0, 0)], sp_values = [1], sp_dense_shape = (1, 1)\<rparr> \<lparr>n_cols = 0, rows = [[]]\<rparr>
     = Inr [0]
   \<and> WMRB_loss_graph \<lparr>n_cols = 1, rows = [[2]]\<rparr>
      \<lparr>sp_indices = [(0, 0)], sp_values = [1], sp_dense_shape = (1, 1)\<rparr> \<lparr>n_cols = 0, rows = [[]]\<rparr>
     = Inr [0]"
proof -
  let ?S = "\<lparr>n_cols = 0, rows = [[] :: real list]\<rparr>"
  let ?sp = "\<lparr>sp_indices = [(0, 0)], sp_values = [1], sp_dense_shape = (1, 1)\<rparr>"
  have pos: "positive_interactions \<lparr>sp_indices = [(0, 0)], sp_values = [1], sp_dense_shape = sh\<rparr>
      = [(0, 0)]" for sh
    by (simp add: positive_interactions_def)
  have run: "WMRB_loss_graph \<lparr>n_cols = 1, rows = [[p]]\<rparr> ?sp ?S = Inr [0]" for p :: real
    by (subst WMRB_in_range) (simp_all add: pos in_range_def n_rows_def margin_def)
  show ?thesis
    using run [of 1] run [of 2] by simp
qed

text \<open>
  C6, amended: with at least one sampled item (\<open>k \<ge> 1\<close>), the entry of a positive pair
  \<open>(u, i)\<close> is \<open>k - k * p + s + k\<close> for its prediction \<open>p\<close> and the sum \<open>s\<close> of the
  sampled predictions of user \<open>u\<close>, and in exact real arithmetic, the arithmetic of
  this theory, a strictly greater prediction at \<open>(u, i)\<close>, with the same sampled
  predictions, gives a strictly smaller entry (the rounding of \<^verbatim>\<open>float32\<close>, where two
  margins can round to the same number, is set aside). This holds for every entry of
  the result, so for every user when each user has exactly one positive interaction.
\<close>

theorem WMRB_margin_decreases:
  assumes "wf_dense P" and "wf_dense P'" and "wf_dense S"
    and "n_rows P' = n_rows P" and "n_cols P' = n_cols P"
    and "length (sp_indices sp) = length (sp_values sp)"
    and "list_all (in_range (n_rows P) (n_cols P)) (positive_interactions sp)"
    and "list_all (\<lambda>idx. 0 \<le> fst idx \<and> fst idx < int (n_rows S)) (positive_interactions sp)"
    and "j < length (positive_interactions sp)"
    and "positive_interactions sp ! j = (u, i)"
    and "0 < n_cols S"
    and "rows P ! nat u ! nat i < rows P' ! nat u ! nat i"
  shows "\<exists>out out'. WMRB_loss_graph P sp S = Inr out \<and> WMRB_loss_graph P' sp S = Inr out'
           \<and> out ! j = real (n_cols S) - real (n_cols S) * (rows P ! nat u ! nat i)
                        + sum_list (rows S ! nat u) + real (n_cols S)
           \<and> out' ! j = real (n_cols S) - real (n_cols S) * (rows P' ! nat u ! nat i)
                        + sum_list (rows S ! nat u) + real (n_cols S)
           \<and> out' ! j < out ! j"
proof -
  let ?k = "real (n_cols S)"
  let ?m = "\<lambda>Q idx. margin ?k (rows Q ! nat (fst idx) ! nat (snd idx)) (sum_list (rows S ! nat (fst idx)))"
  have run: "WMRB_loss_graph P sp S = Inr (map (?m P) (positive_interactions sp))"
    using assms(6-8) by (rule WMRB_in_range)
  have run': "WMRB_loss_graph P' sp S = Inr (map (?m P') (positive_interactions sp))"
    using assms(4-8) by (intro WMRB_in_range) simp_all
  have at: "map (?m Q) (positive_interactions sp) ! j
      = ?k - ?k * (rows Q ! nat u ! nat i) + sum_list (rows S ! nat u) + ?k" for Q :: dense
    using assms(9,10) by (simp add: margin_def)
  have "?k * (rows P ! nat u ! nat i) < ?k * (rows P' ! nat u ! nat i)"
    using assms(11,12) by simp
  then have "map (?m P') (positive_interactions sp) ! j < map (?m P) (positive_interactions sp) ! j"
    unfolding at by linarith
  with run run' at show ?thesis by blast
qed

theorem WMRB_margin_decreases_witness:
  "WMRB_loss_graph \<lparr>n_cols = 1, rows = [[1]]\<rparr>
      \<lparr>sp_indices = [(0, 0)], sp_values = [1], sp_dense_shape = (1, 1)\<rparr> \<lparr>n_cols = 2, rows = [[3, 4]]\<rparr>
     = Inr [9]
   \<and> WMRB_loss_graph \<lparr>n_cols = 1, rows = [[2]]\<rparr>
      \<lparr>sp_indices = [(0, 0)], sp_values = [1], sp_dense_shape = (1, 1)\<rparr> \<lparr>n_cols = 2, rows = [[3, 4]]\<rparr>
     = Inr [7]"
proof -
  let ?P = "\<lparr>n_cols = 1, rows = [[1 :: real]]\<rparr>"
  let ?P' = "\<lparr>n_cols = 1, rows = [[2 :: real]]\<rparr>"
  let ?S = "\<lparr>n_cols = 2, rows = [[3, 4 :: real]]\<rparr>"
  let ?sp = "\<lparr>sp_indices = [(0, 0)], sp_values = [1], sp_dense_shape = (1, 1)\<rparr>"
  have pos: "positive_interactions \<lparr>sp_indices = [(0, 0)], sp_values = [1], sp_dense_shape = sh\<rparr>
      = [(0, 0)]" for sh
    by (simp add: positive_interactions_def)
  have "wf_dense ?P" and "wf_dense ?P'" and "wf_dense ?S"
    by (simp_all add: wf_dense_def)
  moreover have "n_rows ?P' = n_rows ?P" and "n_cols ?P' = n_cols ?P"
    by (simp_all add: n_rows_def)
  moreover have "length (sp_indices ?sp) = length (sp_values ?sp)"
    by simp
  moreover have "list_all (in_range (n_rows ?P) (n_cols ?P)) (positive_interactions ?sp)"
    by (simp add: pos in_range_def n_rows_def)
  moreover have "list_all (\<lambda>idx. 0 \<le> fst idx \<and> fst idx < int (n_rows ?S)) (positive_interactions ?sp)"
    by (simp add: pos n_rows_def)
  moreover have "0 < length (positive_interactions ?sp)" and "positive_interactions ?sp ! 0 = (0, 0)"
    by (simp_all add: pos)
  moreover have "0 < n_cols ?S" and "rows ?P ! nat 0 ! nat 0 < rows ?P' ! nat 0 ! nat 0"
    by simp_all
  ultimately obtain out out' where "WMRB_loss_graph ?P ?sp ?S = Inr out"
      and "WMRB_loss_graph ?P' ?sp ?S = Inr out'"
      and "out ! 0 = real (n_cols ?S) - real (n_cols ?S) * (rows ?P ! nat 0 ! nat 0)
                        + sum_list (rows ?S ! nat 0) + real (n_cols ?S)"
      and "out' ! 0 = real (n_cols ?S) - real (n_cols ?S) * (rows ?P' ! nat 0 ! nat 0)
                        + sum_list (rows ?S ! nat 0) + real (n_cols ?S)"
    using WMRB_margin_decreases [of ?P ?P' ?S ?sp 0 0 0] by blast
  moreover have "WMRB_loss_graph \<lparr>n_cols = 1, rows = [[p]]\<rparr> ?sp ?S = Inr [margin 2 p 7]" for p :: real
    by (subst WMRB_in_range) (simp_all add: pos in_range_def n_rows_def)
  ultimately show ?thesis
    by (auto simp: margin_def)
qed

text \<open>
  C5. \<^verbatim>\<open>WMRBAlignmentLossGraph.loss_graph\<close> on alignment scores returns what
  \<^verbatim>\<open>WMRBLossGraph.loss_graph\<close> returns on the same scores as predictions: called with
  every tensor by keyword, it is the WMRB loss of the call in which the alignment and
  the sample alignments stand for the prediction and the sample predictions.
\<close>

theorem WMRBAlignment_delegates:
  "WMRBAlignment_loss_graph scores interactions sampled = WMRB_loss_graph scores interactions sampled
   \<and> loss_graph WMRBAlignmentLossGraph kw
       = loss_graph WMRBLossGraph (kw\<lparr>tf_prediction := tf_alignment kw,
                                       tf_sample_predictions := tf_sample_alignments kw\<rparr>)"
  by (simp add: WMRBAlignment_loss_graph_def)

theorem WMRBAlignment_delegates_witness:
  "WMRBAlignment_loss_graph \<lparr>n_cols = 1, rows = [[1]]\<rparr>
      \<lparr>sp_indices = [(0, 0)], sp_values = [1], sp_dense_shape = (1, 1)\<rparr> \<lparr>n_cols = 2, rows = [[3, 4]]\<rparr>
     = Inr [9]"
proof -
  have pos: "positive_interactions \<lparr>sp_indices = [(0, 0)], sp_values = [1], sp_dense_shape = sh\<rparr>
      = [(0, 0)]" for sh
    by (simp add: positive_interactions_def)
  have "WMRB_loss_graph \<lparr>n_cols = 1, rows = [[1]]\<rparr>
      \<lparr>sp_indices = [(0, 0)], sp_values = [1], sp_dense_shape = (1, 1)\<rparr> \<lparr>n_cols = 2, rows = [[3, 4]]\<rparr>
     = Inr [9]"
    by (subst WMRB_in_range) (simp_all add: pos in_range_def n_rows_def margin_def)
  then show ?thesis
    using WMRBAlignment_delegates
      [of "\<lparr>n_cols = 1, rows = [[1]]\<rparr>"
          "\<lparr>sp_indices = [(0, 0)], sp_values = [1], sp_dense_shape = (1, 1)\<rparr>"
          "\<lparr>n_cols = 2, rows = [[3, 4]]\<rparr>"]
    by simp
qed

subsection \<open>The catch-all inputs\<close>

text \<open>
  C9. For every loss class, the value of \<^verbatim>\<open>loss_graph\<close> depends only on the tensors
  that the signature of the class names: two calls that agree on them return the
  same value, whatever the other tensors are.
\<close>

theorem unused_inputs_ignored:
  assumes "same_named_inputs c a b"
  shows "loss_graph c a = loss_graph c b"
  using assms by (cases c) simp_all

theorem unused_inputs_ignored_witness:
  "same_named_inputs RMSELossGraph
     \<lparr>tf_prediction_serial = [0, 0, 0], tf_interactions_serial = [1, 1, 1],
      tf_prediction = \<lparr>n_cols = 1, rows = [[1]]\<rparr>,
      tf_interactions = \<lparr>sp_indices = [(0, 0)], sp_values = [1], sp_dense_shape = (1, 1)\<rparr>,
      tf_rankings = \<lparr>n_cols = 1, rows = [[1]]\<rparr>, tf_alignment = \<lparr>n_cols = 1, rows = [[1]]\<rparr>,
      tf_sample_predictions = \<lparr>n_cols = 1, rows = [[1]]\<rparr>,
      tf_sample_alignments = \<lparr>n_cols = 1, rows = [[1]]\<rparr>\<rparr>
     \<lparr>tf_prediction_serial = [0, 0, 0], tf_interactions_serial = [1, 1, 1],
      tf_prediction = \<lparr>n_cols = 2, rows = [[5, 6]]\<rparr>,
      tf_interactions = \<lparr>sp_indices = [], sp_values = [], sp_dense_shape = (1, 2)\<rparr>,
      tf_rankings = \<lparr>n_cols = 2, rows = [[2, 1]]\<rparr>, tf_alignment = \<lparr>n_cols = 2, rows = [[7, 8]]\<rparr>,
      tf_sample_predictions = \<lparr>n_cols = 0, rows = [[]]\<rparr>,
      tf_sample_alignments = \<lparr>n_cols = 0, rows = [[]]\<rparr>\<rparr>
   \<and> loss_graph RMSELossGraph
     \<lparr>tf_prediction_serial = [0, 0, 0], tf_interactions_serial = [1, 1, 1],
      tf_prediction = \<lparr>n_cols = 2, rows = [[5, 6]]\<rparr>,
      tf_interactions = \<lparr>sp_indices = [], sp_values = [], sp_dense_shape = (1, 2)\<rparr>,
      tf_rankings = \<lparr>n_cols = 2, rows = [[2, 1]]\<rparr>, tf_alignment = \<lparr>n_cols = 2, rows = [[7, 8]]\<rparr>,
      tf_sample_predictions = \<lparr>n_cols = 0, rows = [[]]\<rparr>,
      tf_sample_alignments = \<lparr>n_cols = 0, rows = [[]]\<rparr>\<rparr>
     = Inr (Scalar (Some 1))"
proof -
  let ?a = "\<lparr>tf_prediction_serial = [0, 0, 0], tf_interactions_serial = [1, 1, 1],
      tf_prediction = \<lparr>n_cols = 1, rows = [[1]]\<rparr>,
      tf_interactions = \<lparr>sp_indices = [(0, 0)], sp_values = [1], sp_dense_shape = (1, 1)\<rparr>,
      tf_rankings = \<lparr>n_cols = 1, rows = [[1]]\<rparr>, tf_alignment = \<lparr>n_cols = 1, rows = [[1]]\<rparr>,
      tf_sample_predictions = \<lparr>n_cols = 1, rows = [[1]]\<rparr>,
      tf_sample_alignments = \<lparr>n_cols = 1, rows = [[1]]\<rparr>\<rparr>"
  let ?b = "\<lparr>tf_prediction_serial = [0, 0, 0], tf_interactions_serial = [1, 1, 1],
      tf_prediction = \<lparr>n_cols = 2, rows = [[5, 6]]\<rparr>,
      tf_interactions = \<lparr>sp_indices = [], sp_values = [], sp_dense_shape = (1, 2)\<rparr>,
      tf_rankings = \<lparr>n_cols = 2, rows = [[2, 1]]\<rparr>, tf_alignment = \<lparr>n_cols = 2, rows = [[7, 8]]\<rparr>,
      tf_sample_predictions = \<lparr>n_cols = 0, rows = [[]]\<rparr>,
      tf_sample_alignments = \<lparr>n_cols = 0, rows = [[]]\<rparr>\<rparr>"
  have same: "same_named_inputs RMSELossGraph ?a ?b"
    by simp
  have "loss_graph RMSELossGraph ?a = Inr (Scalar (Some 1))"
    by (simp add: RMSE_same_length as_scalar_def)
  with same show ?thesis
    using unused_inputs_ignored [of RMSELossGraph ?a ?b] by simp
qed

subsection \<open>RMSE-Dense\<close>

lemma sum_list_concat_rows: "sum_list (concat xss) = sum_list (map sum_list xss)"
  for xss :: "real list list"
  by (induction xss) simp_all

lemma sum_list_grid:
  "sum_list (concat (map (\<lambda>r. map (\<lambda>c. g r c) [0..<nc]) [0..<nr]))
     = (\<Sum>(r, c)\<in>{0..<nr} \<times> {0..<nc}. (g r c :: real))"
proof -
  have "sum_list (concat (map (\<lambda>r. map (\<lambda>c. g r c) [0..<nc]) [0..<nr]))
      = (\<Sum>r\<in>{0..<nr}. \<Sum>c\<in>{0..<nc}. g r c)"
    by (simp add: sum_list_concat_rows comp_def interv_sum_list_conv_sum_set_nat)
  also have "\<dots> = (\<Sum>(r, c)\<in>{0..<nr} \<times> {0..<nc}. g r c)"
    by (rule sum.cartesian_product)
  finally show ?thesis .
qed

lemma length_grid:
  "length (concat (map (\<lambda>r. map (\<lambda>c. g r c) [0..<nc]) [0..<nr])) = nr * nc"
  by (induction nr) simp_all

lemma filter_absent:
  "idx \<notin> fst ` set es \<Longrightarrow> filter (\<lambda>e. fst e = idx) es = []"
  by (induction es) auto

lemma stored_value:
  assumes "distinct (map fst es)" and "(idx, v) \<in> set es"
  shows "sum_list (map snd (filter (\<lambda>e. fst e = idx) es)) = (v :: real)"
  using assms
proof (induction es)
  case Nil
  then show ?case by simp
next
  case (Cons e es)
  show ?case
  proof (cases "e = (idx, v)")
    case True
    then have "idx \<notin> fst ` set es" using Cons.prems(1) by simp
    then show ?thesis using True by (simp add: filter_absent)
  next
    case False
    then have mem: "(idx, v) \<in> set es" using Cons.prems(2) by simp
    then have "idx \<in> fst ` set es" by force
    then have "fst e \<noteq> idx" using Cons.prems(1) by auto
    then show ?thesis using Cons.IH mem Cons.prems(1) by simp
  qed
qed


lemma scalar_mul_shape:
  "n_rows (tf_scalar_mul a d) = n_rows d" "n_cols (tf_scalar_mul a d) = n_cols d"
  by (simp_all add: tf_scalar_mul_def n_rows_def)

lemma scalar_mul_cell:
  assumes "wf_dense d" and "r < n_rows d" and "c < n_cols d"
  shows "rows (tf_scalar_mul a d) ! r ! c = a * (rows d ! r ! c)"
proof -
  have "length (rows d ! r) = n_cols d"
    using assms(1,2) by (simp add: wf_dense_def list_all_length n_rows_def)
  then show ?thesis
    using assms(2,3) by (simp add: tf_scalar_mul_def n_rows_def)
qed

lemma sparse_add_entries:
  assumes "sp_dense_shape sp = (n_rows d, n_cols d)"
    and "length (sp_indices sp) = length (sp_values sp)"
    and "list_all (in_range (n_rows d) (n_cols d)) (sp_indices sp)"
  shows "\<exists>e. tf_sparse_add sp (tf_scalar_mul a d) = Inr e
           \<and> entries e = concat (map (\<lambda>r. map (\<lambda>c. sparse_cell sp r c + rows (tf_scalar_mul a d) ! r ! c)
                                             [0..<n_cols d]) [0..<n_rows d])"
  using assms by (simp add: tf_sparse_add_def scalar_mul_shape entries_def)

lemma sum_squares_grid:
  assumes "wf_dense d"
  shows "sum_list (tf_square (concat (map (\<lambda>r. map (\<lambda>c. sparse_cell sp r c + rows (tf_scalar_mul (- 1) d) ! r ! c)
                                             [0..<n_cols d]) [0..<n_rows d])))
       = (\<Sum>(r, c)\<in>{0..<n_rows d} \<times> {0..<n_cols d}.
            (sparse_cell sp r c - rows d ! r ! c) * (sparse_cell sp r c - rows d ! r ! c))"
proof -
  let ?f = "\<lambda>r c. sparse_cell sp r c + rows (tf_scalar_mul (- 1) d) ! r ! c"
  have "tf_square (concat (map (\<lambda>r. map (\<lambda>c. ?f r c) [0..<n_cols d]) [0..<n_rows d]))
      = concat (map (\<lambda>r. map (\<lambda>c. ?f r c * ?f r c) [0..<n_cols d]) [0..<n_rows d])"
    by (simp add: tf_square_def map_concat comp_def)
  then have "sum_list (tf_square (concat (map (\<lambda>r. map (\<lambda>c. ?f r c) [0..<n_cols d]) [0..<n_rows d])))
      = (\<Sum>(r, c)\<in>{0..<n_rows d} \<times> {0..<n_cols d}. ?f r c * ?f r c)"
    by (simp only: sum_list_grid)
  also have "\<dots> = (\<Sum>(r, c)\<in>{0..<n_rows d} \<times> {0..<n_cols d}.
            (sparse_cell sp r c - rows d ! r ! c) * (sparse_cell sp r c - rows d ! r ! c))"
    by (rule sum.cong) (auto simp: scalar_mul_cell[OF assms])
  finally show ?thesis .
qed

lemma grid_sum_over_samples:
  fixes G :: "int \<times> int \<Rightarrow> real"
  assumes "distinct idxs" and "list_all (in_range nr nc) idxs"
    and "\<And>r c. r < nr \<Longrightarrow> c < nc \<Longrightarrow> (int r, int c) \<notin> set idxs \<Longrightarrow> G (int r, int c) = 0"
  shows "(\<Sum>(r, c)\<in>{0..<nr} \<times> {0..<nc}. G (int r, int c)) = sum_list (map G idxs)"
proof -
  let ?grid = "{0..<nr} \<times> {0..<nc}"
  let ?to = "\<lambda>rc :: nat \<times> nat. (int (fst rc), int (snd rc))"
  have inj: "inj_on ?to ?grid"
    by (rule inj_onI) (auto simp: prod_eq_iff)
  have "(\<Sum>(r, c)\<in>?grid. G (int r, int c)) = (\<Sum>rc\<in>?grid. G (?to rc))"
    by (simp add: case_prod_unfold)
  also have "\<dots> = sum G (?to ` ?grid)"
    using inj by (simp add: sum.reindex)
  also have "\<dots> = sum G (set idxs)"
  proof (rule sum.mono_neutral_right)
    show "finite (?to ` ?grid)" by simp
    show "set idxs \<subseteq> ?to ` ?grid"
    proof
      fix idx assume "idx \<in> set idxs"
      then have "in_range nr nc idx"
        using assms(2) by (simp add: list_all_iff)
      then have "(nat (fst idx), nat (snd idx)) \<in> ?grid" and "?to (nat (fst idx), nat (snd idx)) = idx"
        by (auto simp: in_range_def prod_eq_iff)
      then show "idx \<in> ?to ` ?grid" by (metis (no_types, lifting) image_eqI)
    qed
    show "\<forall>i\<in>?to ` ?grid - set idxs. G i = 0"
      using assms(3) by auto
  qed
  also have "\<dots> = sum_list (map G idxs)"
    using assms(1) by (simp add: sum_list_distinct_conv_sum_set)
  finally show ?thesis .
qed


lemma dense_squares_are_serial_squares:
  assumes "covers_serial_samples sp d predictions interactions"
  shows "(\<Sum>(r, c)\<in>{0..<n_rows d} \<times> {0..<n_cols d}.
            (sparse_cell sp r c - rows d ! r ! c) * (sparse_cell sp r c - rows d ! r ! c))
         = sum_list (map2 (\<lambda>i p. (i - p) * (i - p)) interactions predictions)"
proof -
  let ?idxs = "sp_indices sp"
  let ?es = "zip ?idxs interactions"
  let ?cell = "\<lambda>idx. sum_list (map snd (filter (\<lambda>e. fst e = idx) ?es))"
  let ?D = "\<lambda>idx :: int \<times> int. rows d ! nat (fst idx) ! nat (snd idx)"
  let ?G = "\<lambda>idx. (?cell idx - ?D idx) * (?cell idx - ?D idx)"
  from assms have vals: "sp_values sp = interactions"
    and len: "length ?idxs = length interactions"
    and dist: "distinct ?idxs"
    and rng: "list_all (in_range (n_rows d) (n_cols d)) ?idxs"
    and preds: "predictions = map ?D ?idxs"
    and zero: "list_all (\<lambda>r. list_all (\<lambda>c. (int r, int c) \<in> set ?idxs \<or> rows d ! r ! c = 0)
                                [0..<n_cols d]) [0..<n_rows d]"
    by (simp_all add: covers_serial_samples_def)
  have cell: "sparse_cell sp r c = ?cell (int r, int c)" for r c
    by (simp add: sparse_cell_def vals)
  have outside: "?G (int r, int c) = 0"
    if "r < n_rows d" and "c < n_cols d" and "(int r, int c) \<notin> set ?idxs" for r c
  proof -
    have "(int r, int c) \<notin> fst ` set ?es"
      using that(3) len by (simp add: set_map[symmetric] del: set_map)
    then have "?cell (int r, int c) = 0" by (simp add: filter_absent)
    moreover have "\<forall>r<n_rows d. \<forall>c<n_cols d. (int r, int c) \<in> set ?idxs \<or> rows d ! r ! c = 0"
      using zero by (simp add: list_all_iff)
    then have "rows d ! r ! c = 0"
      using that by blast
    ultimately show ?thesis by simp
  qed
  have "(\<Sum>(r, c)\<in>{0..<n_rows d} \<times> {0..<n_cols d}.
            (sparse_cell sp r c - rows d ! r ! c) * (sparse_cell sp r c - rows d ! r ! c))
      = (\<Sum>(r, c)\<in>{0..<n_rows d} \<times> {0..<n_cols d}. ?G (int r, int c))"
    by (simp add: cell)
  also have "\<dots> = sum_list (map ?G ?idxs)"
    using dist rng outside by (rule grid_sum_over_samples)
  finally have grid: "(\<Sum>(r, c)\<in>{0..<n_rows d} \<times> {0..<n_cols d}.
            (sparse_cell sp r c - rows d ! r ! c) * (sparse_cell sp r c - rows d ! r ! c))
      = sum_list (map ?G ?idxs)" .
  have "map ?G ?idxs = map2 (\<lambda>i p. (i - p) * (i - p)) interactions (map ?D ?idxs)"
  proof (rule nth_equalityI)
    show "length (map ?G ?idxs) = length (map2 (\<lambda>i p. (i - p) * (i - p)) interactions (map ?D ?idxs))"
      using len by simp
  next
    fix k assume "k < length (map ?G ?idxs)"
    then have k: "k < length ?idxs" by simp
    then have "(?idxs ! k, interactions ! k) \<in> set ?es"
      using len by (auto simp: in_set_zip)
    moreover have "distinct (map fst ?es)"
      using dist len by simp
    ultimately have "?cell (?idxs ! k) = interactions ! k"
      by (rule stored_value[rotated])
    then show "map ?G ?idxs ! k = map2 (\<lambda>i p. (i - p) * (i - p)) interactions (map ?D ?idxs) ! k"
      using k len by simp
  qed
  then have "sum_list (map ?G ?idxs) = sum_list (map2 (\<lambda>i p. (i - p) * (i - p)) interactions predictions)"
    unfolding preds by (rule arg_cong)
  with grid show ?thesis by (rule trans)
qed

lemma RMSEDense_covering:
  assumes "covers_serial_samples sp d predictions interactions"
  shows "RMSEDense_loss_graph sp d =
     Inr (if n_rows d * n_cols d = 0 then None
          else Some (sqrt (sum_list (map2 (\<lambda>i p. (i - p) * (i - p)) interactions predictions)
                           / real (n_rows d * n_cols d))))"
proof -
  let ?sse = "sum_list (map2 (\<lambda>i p. (i - p) * (i - p)) interactions predictions)"
  let ?grid = "concat (map (\<lambda>r. map (\<lambda>c. sparse_cell sp r c + rows (tf_scalar_mul (- 1) d) ! r ! c)
                                             [0..<n_cols d]) [0..<n_rows d])"
  from assms have wf: "wf_dense d"
    and shape: "sp_dense_shape sp = (n_rows d, n_cols d)"
    and len: "length (sp_indices sp) = length (sp_values sp)"
    and rng: "list_all (in_range (n_rows d) (n_cols d)) (sp_indices sp)"
    by (simp_all add: covers_serial_samples_def)
  obtain e where add: "tf_sparse_add sp (tf_scalar_mul (- 1) d) = Inr e" and ent: "entries e = ?grid"
    using sparse_add_entries[OF shape len rng] by blast
  have sum: "sum_list (tf_square ?grid) = ?sse"
    using sum_squares_grid[OF wf] dense_squares_are_serial_squares[OF assms] by simp
  have count: "length (tf_square ?grid) = n_rows d * n_cols d"
    by (simp add: tf_square_def length_grid del: length_concat)
  have nonneg: "0 \<le> ?sse"
    by (rule sum_list_nonneg) auto
  define sq where "sq = tf_square ?grid"
  have "sum_list sq = ?sse" and "length sq = n_rows d * n_cols d"
    using sum count by (simp_all add: sq_def)
  then have "tf_reduce_mean sq =
      (if n_rows d * n_cols d = 0 then None else Some (?sse / real (n_rows d * n_cols d)))"
  proof (cases sq)
    case Nil
    with \<open>length sq = n_rows d * n_cols d\<close> show ?thesis
      by (simp add: tf_reduce_mean_def)
  next
    case (Cons x xs)
    with \<open>length sq = n_rows d * n_cols d\<close> have "n_rows d * n_cols d \<noteq> 0"
      by (metis length_0_conv list.distinct(1))
    with \<open>sum_list sq = ?sse\<close> \<open>length sq = n_rows d * n_cols d\<close> Cons show ?thesis
      by (simp add: tf_reduce_mean_def del: mult_eq_0_iff)
  qed
  then have mean: "tf_reduce_mean (tf_square ?grid) =
      (if n_rows d * n_cols d = 0 then None else Some (?sse / real (n_rows d * n_cols d)))"
    by (simp add: sq_def)
  have "\<not> ?sse / real (n_rows d * n_cols d) < 0"
    using nonneg by (simp add: not_less)
  then show ?thesis
    by (simp add: RMSEDense_loss_graph_def add ent mean tf_sqrt_def)
qed

text \<open>
  C2, as stated: when the stored interactions of the sparse matrix are exactly the
  serial samples, every other interaction is 0 and the predictions at the other cells
  are 0, \<^verbatim>\<open>RMSEDenseLossGraph.loss_graph\<close> returns what \<^verbatim>\<open>RMSELossGraph.loss_graph\<close>
  returns on the serial inputs. The sums of squared errors agree, but the dense mean
  divides by the number of cells and the serial mean by the number of samples: one
  sample with error 1 in a matrix of four cells gives 1 for the serial loss and 1/2
  for the dense loss.
\<close>

theorem RMSEDense_differs_from_RMSE:
  "covers_serial_samples
     \<lparr>sp_indices = [(0, 0)], sp_values = [1], sp_dense_shape = (1, 4)\<rparr>
     \<lparr>n_cols = 4, rows = [[0, 0, 0, 0]]\<rparr> [0] [1]
   \<and> RMSE_loss_graph [0] [1] = Inr (Some 1)
   \<and> RMSEDense_loss_graph \<lparr>sp_indices = [(0, 0)], sp_values = [1], sp_dense_shape = (1, 4)\<rparr>
        \<lparr>n_cols = 4, rows = [[0, 0, 0, 0]]\<rparr> = Inr (Some (1 / 2))"
proof -
  let ?sp = "\<lparr>sp_indices = [(0, 0)], sp_values = [1], sp_dense_shape = (1, 4)\<rparr>"
  let ?d = "\<lparr>n_cols = 4, rows = [[0, 0, 0, 0 :: real]]\<rparr>"
  have cols: "[0..<4] = [0, 1, 2, 3 :: nat]"
    by (simp add: upt_conv_Cons)
  have cov: "covers_serial_samples ?sp ?d [0] [1]"
    by (simp add: covers_serial_samples_def wf_dense_def in_range_def n_rows_def cols)
  have "RMSE_loss_graph [0] [1] = Inr (Some 1)"
    by (simp add: RMSE_same_length)
  moreover have "RMSEDense_loss_graph ?sp ?d = Inr (Some (1 / 2))"
    using RMSEDense_covering[OF cov] by (simp add: n_rows_def real_sqrt_divide)
  ultimately show ?thesis using cov by simp
qed

text \<open>
  C2, amended: under the same conditions and with at least one sample,
  \<^verbatim>\<open>RMSEDenseLossGraph.loss_graph\<close> returns the value of \<^verbatim>\<open>RMSELossGraph.loss_graph\<close>
  on the serial inputs times \<open>sqrt (n_samples / (n_users * n_items))\<close>; the two losses
  are equal when the samples fill the matrix (\<open>n_samples = n_users * n_items\<close>).
\<close>

theorem RMSEDense_scaled_RMSE:
  assumes "covers_serial_samples sp d predictions interactions" and "predictions \<noteq> []"
  shows "\<exists>s. RMSE_loss_graph predictions interactions = Inr (Some s)
           \<and> RMSEDense_loss_graph sp d
               = Inr (Some (s * sqrt (real (length predictions) / real (n_rows d * n_cols d))))
           \<and> (length predictions = n_rows d * n_cols d
                \<longrightarrow> RMSEDense_loss_graph sp d = RMSE_loss_graph predictions interactions)"
proof -
  let ?sse = "sum_list (map2 (\<lambda>i p. (i - p) * (i - p)) interactions predictions)"
  let ?n = "real (length predictions)"
  let ?cells = "real (n_rows d * n_cols d)"
  from assms(1) have len: "length interactions = length predictions"
    and rng: "list_all (in_range (n_rows d) (n_cols d)) (sp_indices sp)"
    and idxs: "length (sp_indices sp) = length interactions"
    by (simp_all add: covers_serial_samples_def)
  have serial: "RMSE_loss_graph predictions interactions = Inr (Some (sqrt (?sse / ?n)))"
    using len assms(2) by (simp add: RMSE_same_length)
  obtain idx where "idx \<in> set (sp_indices sp)"
    using idxs len assms(2) by (cases "sp_indices sp") auto
  then have "in_range (n_rows d) (n_cols d) idx"
    using rng by (simp add: list_all_iff)
  then have cells: "n_rows d * n_cols d \<noteq> 0"
    by (auto simp: in_range_def)
  then have dense: "RMSEDense_loss_graph sp d = Inr (Some (sqrt (?sse / ?cells)))"
    using RMSEDense_covering[OF assms(1)] by simp
  have "?n \<noteq> 0" using assms(2) by simp
  then have "?sse / ?cells = (?sse / ?n) * (?n / ?cells)"
    by simp
  then have scaled: "sqrt (?sse / ?cells) = sqrt (?sse / ?n) * sqrt (?n / ?cells)"
    by (simp only: real_sqrt_mult)
  show ?thesis
  proof (intro exI conjI impI)
    show "RMSE_loss_graph predictions interactions = Inr (Some (sqrt (?sse / ?n)))"
      by (rule serial)
    show "RMSEDense_loss_graph sp d = Inr (Some (sqrt (?sse / ?n) * sqrt (?n / ?cells)))"
      using dense scaled by (simp only:)
    show "RMSEDense_loss_graph sp d = RMSE_loss_graph predictions interactions"
      if "length predictions = n_rows d * n_cols d"
      using that serial dense by (simp only:)
  qed
qed

theorem RMSEDense_scaled_RMSE_witness:
  "covers_serial_samples
     \<lparr>sp_indices = [(0, 0), (1, 2)], sp_values = [5, - 1], sp_dense_shape = (2, 4)\<rparr>
     \<lparr>n_cols = 4, rows = [[3, 0, 0, 0], [0, 0, 1, 0]]\<rparr> [3, 1] [5, - 1]
   \<and> RMSE_loss_graph [3, 1] [5, - 1] = Inr (Some 2)
   \<and> RMSEDense_loss_graph \<lparr>sp_indices = [(0, 0), (1, 2)], sp_values = [5, - 1], sp_dense_shape = (2, 4)\<rparr>
        \<lparr>n_cols = 4, rows = [[3, 0, 0, 0], [0, 0, 1, 0]]\<rparr> = Inr (Some 1)"
proof -
  let ?sp = "\<lparr>sp_indices = [(0, 0), (1, 2)], sp_values = [5, - 1], sp_dense_shape = (2, 4)\<rparr>"
  let ?d = "\<lparr>n_cols = 4, rows = [[3, 0, 0, 0], [0, 0, 1, 0 :: real]]\<rparr>"
  have cols: "[0..<4] = [0, 1, 2, 3 :: nat]"
    by (simp add: upt_conv_Cons)
  have cov: "covers_serial_samples ?sp ?d [3, 1] [5, - 1]"
    by (simp add: covers_serial_samples_def wf_dense_def in_range_def n_rows_def cols)
  have ne: "[3, 1 :: real] \<noteq> []"
    by simp
  have serial: "RMSE_loss_graph [3, 1] [5, - 1] = Inr (Some 2)"
    by (simp add: RMSE_same_length)
  have half: "sqrt (2 / 8) = 1 / 2"
    by (simp add: real_sqrt_divide)
  obtain s where "RMSE_loss_graph [3, 1] [5, - 1] = Inr (Some s)"
    and "RMSEDense_loss_graph ?sp ?d
          = Inr (Some (s * sqrt (real (length [3, 1 :: real]) / real (n_rows ?d * n_cols ?d))))"
    using RMSEDense_scaled_RMSE [OF cov ne] by blast
  with serial have "RMSEDense_loss_graph ?sp ?d = Inr (Some 1)"
    using half by (simp add: n_rows_def)
  with cov serial show ?thesis by simp
qed

end
